theory Spec2Isabelle
  imports Main
begin

section \<open>Order admission and tracking dispatch of the storefront\<close>

text \<open>
  The theory embeds the two edge functions \<^verbatim>\<open>create-order\<close> and
  \<^verbatim>\<open>meta-server-events\<close>. Each handler is a function from the parsed body of a
  POST request, the outcome of the external calls it awaits and the contents of the tables
  it touches to the response and the new contents of those tables. Requests are handled
  one at a time.
\<close>

subsection \<open>Scalars\<close>

text \<open>
  Timestamps are the milliseconds of \<^verbatim>\<open>Date.getTime()\<close>. Money is counted in
  hundredths of a dinar (the columns are \<^verbatim>\<open>DECIMAL(10,2)\<close>), quantities are
  integers (\<^verbatim>\<open>INTEGER\<close>).
\<close>

type_synonym timestamp = int
type_synonym money = int

subsection \<open>The phone pattern\<close>

text \<open>
  \<^verbatim>\<open>/^0[567]\d{8}$/\<close>: the pattern is a sequence of one-character atoms between the two
  anchors, so \<^verbatim>\<open>test\<close> succeeds exactly when the string has one character per atom
  and each character belongs to its atom. Without the \<^verbatim>\<open>m\<close> flag the anchors are
  the two ends of the input, and \<^verbatim>\<open>\d\<close> is the ten ASCII digits.
\<close>

definition is_digit :: "char \<Rightarrow> bool" where
  "is_digit c = (c \<in> set ''0123456789'')"

datatype atom = Lit char | OneOf "char list" | Digit

fun atom_match :: "atom \<Rightarrow> char \<Rightarrow> bool" where
  "atom_match (Lit a) c = (c = a)"
| "atom_match (OneOf as) c = (c \<in> set as)"
| "atom_match Digit c = is_digit c"

definition regex_test :: "atom list \<Rightarrow> string \<Rightarrow> bool" where
  "regex_test re s = list_all2 atom_match re s"

definition phoneRegex :: "atom list" where
  "phoneRegex = [Lit CHR ''0'', OneOf ''567''] @ replicate 8 Digit"

text \<open>
  The pattern in the words of the specification: ten characters, a leading \<open>0\<close>, a second
  digit among 5, 6, 7, and eight digits.
\<close>

definition national_mobile :: "string \<Rightarrow> bool" where
  "national_mobile s =
     (length s = 10 \<and> s ! 0 = CHR ''0'' \<and> s ! 1 \<in> {CHR ''5'', CHR ''6'', CHR ''7''} \<and>
      (\<forall>i \<in> {2..<10}. is_digit (s ! i)))"

subsection \<open>Requests\<close>

text \<open>
  \<^verbatim>\<open>interface OrderRequest\<close>. The body is parsed JSON, so it may carry properties
  the interface does not name (a price, a total): both records are extensible, and the
  handler is defined on every extension. The fields \<^verbatim>\<open>size\<close> and \<^verbatim>\<open>note\<close>
  are renamed \<open>opt_size\<close> and \<open>order_note\<close>.
\<close>

record item_options =
  opt_size :: "string option"
  opt_color :: "string option"

record cart_item =
  product_id :: string
  quantity :: int
  options :: "item_options option"

record 'x order_request =
  full_name :: string
  phone :: string
  wilaya :: string
  commune :: "string option"
  delivery_type :: string
  address :: "string option"
  order_note :: "string option"
  cart_items :: "'x cart_item_scheme list"
  turnstile_token :: string
  event_id :: string
  cart_id :: "string option"

subsection \<open>Tables\<close>

text \<open>
  A table is the list of its rows in storage order: an insert appends, an update and a
  delete keep the order of the other rows, and a select without \<^verbatim>\<open>ORDER BY\<close>
  returns the matching rows in that order. Columns carry the prefix of their table. Only
  the columns that the handler reads or writes are kept, and a column with a default
  (\<^verbatim>\<open>is_active\<close>, \<^verbatim>\<open>is_enabled\<close>, \<^verbatim>\<open>count\<close>,
  \<^verbatim>\<open>window_start\<close>, \<^verbatim>\<open>created_at\<close>) is never null; the creation time of an
  order is the time of its request.
\<close>

record product_row =
  p_id :: string
  p_name :: string
  p_price :: money
  p_is_active :: bool

record shipping_rate_row =
  sr_wilaya_code :: string
  sr_delivery_type :: string
  sr_price :: money
  sr_is_enabled :: bool

record order_row =
  o_id :: string
  o_public_token :: string
  o_full_name :: string
  o_phone :: string
  o_wilaya :: string
  o_commune :: "string option"
  o_address :: "string option"
  o_delivery_type :: string
  o_note :: "string option"
  o_subtotal :: money
  o_shipping :: money
  o_total :: money
  o_status :: string
  o_ip_address :: string
  o_user_agent :: string
  o_event_id :: string
  o_created_at :: timestamp

text \<open>
  \<^verbatim>\<open>orderItems\<close> holds the first four columns; the spread
  \<^verbatim>\<open>{...item, order_id, ...}\<close> extends them to a row of \<^verbatim>\<open>order_items\<close>.
\<close>

record order_item =
  oi_product_id :: "string option"
  oi_product_name :: string
  oi_price :: money
  oi_quantity :: int

record order_item_row = order_item +
  oi_order_id :: string
  oi_selected_size :: "string option"
  oi_selected_color :: "string option"
  oi_options :: "item_options option"

record status_history_row =
  h_order_id :: string
  h_status :: string

record rate_limit_row =
  rl_identifier :: string
  rl_identifier_type :: string
  rl_action :: string
  rl_count :: int
  rl_window_start :: timestamp

record cart_row =
  c_id :: string

record db =
  wilayas :: "string list"
  products :: "product_row list"
  shipping_rates :: "shipping_rate_row list"
  orders :: "order_row list"
  order_items :: "order_item_row list"
  order_status_history :: "status_history_row list"
  rate_limits :: "rate_limit_row list"
  carts :: "cart_row list"

subsection \<open>What one request meets outside the handler\<close>

text \<open>
  The request headers, the clock, the answer of the challenge service (\<open>None\<close> when the
  call or its parsing throws), the error results that the handler inspects, and the
  identifier and token that the store generates for a new order. A store call whose error
  result the handler does not inspect is taken to succeed.
\<close>

record ctx =
  cf_connecting_ip :: "string option"
  x_forwarded_for :: "string option"
  user_agent :: "string option"
  now :: timestamp
  turnstile_success :: "bool option"
  productsError :: bool
  shippingError :: bool
  orderError :: bool
  itemsError :: bool
  generated_id :: string
  generated_public_token :: string

subsection \<open>Responses\<close>

text \<open>The localized messages of \<^verbatim>\<open>errorResponse\<close>, named by their meaning.\<close>

datatype message =
    NameRequired
  | PhoneInvalid
  | WilayaNotFound
  | DeliveryTypeInvalid
  | AddressRequired
  | CartEmpty
  | SecurityCheckFailed
  | RateLimitExceeded
  | PhoneRateLimitExceeded
  | OrderAlreadyRegistered
  | ProductsLoadError
  | ProductsUnavailable
  | DeliveryUnavailable
  | OrderCreationError
  | UnexpectedError

datatype response =
    Success string string money
  | ErrorResponse message nat

definition errorResponse :: "message \<Rightarrow> nat \<Rightarrow> response" where
  "errorResponse msg status = ErrorResponse msg status"

fun is_error :: "response \<Rightarrow> bool" where
  "is_error (ErrorResponse _ _) = True"
| "is_error (Success _ _ _) = False"

fun http_status :: "response \<Rightarrow> nat" where
  "http_status (ErrorResponse _ st) = st"
| "http_status (Success _ _ _) = 200"

subsection \<open>Helpers of the runtime\<close>

text \<open>\<^verbatim>\<open>String.prototype.trim\<close> on the code units below 256.\<close>

definition is_space :: "char \<Rightarrow> bool" where
  "is_space c = (c \<in> {CHR 0x09, CHR 0x0A, CHR 0x0B, CHR 0x0C, CHR 0x0D, CHR 0x20, CHR 0xA0})"

definition trim :: "string \<Rightarrow> string" where
  "trim s = rev (dropWhile is_space (rev (dropWhile is_space s)))"

text \<open>\<^verbatim>\<open>x?.trim() || null\<close>\<close>

definition trim_or_null :: "string option \<Rightarrow> string option" where
  "trim_or_null x =
     (case x of None \<Rightarrow> None | Some v \<Rightarrow> (if trim v = [] then None else Some (trim v)))"

text \<open>\<^verbatim>\<open>.single()\<close>: the row when the query returns exactly one, no data otherwise.\<close>

definition single :: "'a list \<Rightarrow> 'a option" where
  "single rows = (case rows of [r] \<Rightarrow> Some r | _ \<Rightarrow> None)"

text \<open>
  \<^verbatim>\<open>cf-connecting-ip || x-forwarded-for?.split(",")[0] || "unknown"\<close>
\<close>

definition forwarded_or_unknown :: "ctx \<Rightarrow> string" where
  "forwarded_or_unknown c =
     (case x_forwarded_for c of
        None \<Rightarrow> ''unknown''
      | Some v \<Rightarrow> if takeWhile (\<lambda>ch. ch \<noteq> CHR '','') v \<noteq> []
                   then takeWhile (\<lambda>ch. ch \<noteq> CHR '','') v else ''unknown'')"

definition clientIP :: "ctx \<Rightarrow> string" where
  "clientIP c =
     (case cf_connecting_ip c of
        None \<Rightarrow> forwarded_or_unknown c
      | Some ip \<Rightarrow> if ip \<noteq> [] then ip else forwarded_or_unknown c)"

text \<open>\<^verbatim>\<open>user-agent || ""\<close>\<close>

definition userAgent :: "ctx \<Rightarrow> string" where
  "userAgent c = (case user_agent c of None \<Rightarrow> [] | Some ua \<Rightarrow> ua)"

subsection \<open>The handler of create-order, stage by stage\<close>

text \<open>Validation: the first failing check answers.\<close>

definition validation :: "db \<Rightarrow> ('x, 'y) order_request_scheme \<Rightarrow> response option" where
  "validation s body =
     (if trim (full_name body) = [] then Some (errorResponse NameRequired 400)
      else if \<not> regex_test phoneRegex (phone body) then Some (errorResponse PhoneInvalid 400)
      else if single (filter (\<lambda>code. code = wilaya body) (wilayas s)) = None
        then Some (errorResponse WilayaNotFound 400)
      else if delivery_type body \<notin> set [''office'', ''home'']
        then Some (errorResponse DeliveryTypeInvalid 400)
      else if delivery_type body = ''home'' \<and>
              (case address body of None \<Rightarrow> True | Some a \<Rightarrow> trim a = [])
        then Some (errorResponse AddressRequired 400)
      else if length (cart_items body) = 0 then Some (errorResponse CartEmpty 400)
      else None)"

text \<open>
  The read of \<^verbatim>\<open>rate_limits\<close>: the count of the one row of the key whose window
  started at or after \<open>windowStart\<close>.
\<close>

definition rate_limit_rows ::
  "rate_limit_row list \<Rightarrow> string \<Rightarrow> string \<Rightarrow> timestamp \<Rightarrow> rate_limit_row list" where
  "rate_limit_rows rls ident ty windowStart =
     filter (\<lambda>r. rl_identifier r = ident \<and> rl_identifier_type r = ty \<and>
                 rl_action r = ''create_order'' \<and> windowStart \<le> rl_window_start r) rls"

definition rate_limit_select ::
  "rate_limit_row list \<Rightarrow> string \<Rightarrow> string \<Rightarrow> timestamp \<Rightarrow> int option" where
  "rate_limit_select rls ident ty windowStart =
     map_option rl_count (single (rate_limit_rows rls ident ty windowStart))"

text \<open>\<^verbatim>\<open>limit && limit.count >= max\<close>\<close>

definition over_limit :: "int option \<Rightarrow> int \<Rightarrow> bool" where
  "over_limit found mx = (case found of None \<Rightarrow> False | Some n \<Rightarrow> mx \<le> n)"

text \<open>Duplicate detection.\<close>

definition recentOrders :: "db \<Rightarrow> string \<Rightarrow> timestamp \<Rightarrow> order_row list" where
  "recentOrders s ph fiveMinutesAgo =
     filter (\<lambda>ord. o_phone ord = ph \<and> fiveMinutesAgo \<le> o_created_at ord) (orders s)"

definition recentItems :: "db \<Rightarrow> string \<Rightarrow> order_item_row list" where
  "recentItems s oid = filter (\<lambda>ri. oi_order_id ri = oid) (order_items s)"

definition isDuplicate :: "order_item_row list \<Rightarrow> 'x cart_item_scheme list \<Rightarrow> bool" where
  "isDuplicate items cart =
     (length items = length cart \<and>
      list_all (\<lambda>item. list_ex (\<lambda>ri. oi_product_id ri = Some (product_id item) \<and>
                                     oi_quantity ri = quantity item) items) cart)"

definition duplicate_detection ::
  "db \<Rightarrow> ('x, 'y) order_request_scheme \<Rightarrow> timestamp \<Rightarrow> bool" where
  "duplicate_detection s body t =
     (case recentOrders s (phone body) (t - 5 * 60 * 1000) of
        [] \<Rightarrow> False
      | first # _ \<Rightarrow> isDuplicate (recentItems s (o_id first)) (cart_items body))"

text \<open>
  Pricing. \<^verbatim>\<open>cart_items.map\<close> with its running \<^verbatim>\<open>subtotal\<close>; \<open>None\<close> is the
  \<^verbatim>\<open>throw new Error("Product not found")\<close>.
\<close>

fun orderItems ::
  "product_row list \<Rightarrow> 'x cart_item_scheme list \<Rightarrow> money \<Rightarrow> (money \<times> order_item list) option" where
  "orderItems prods [] subtotal = Some (subtotal, [])"
| "orderItems prods (item # rest) subtotal =
     (case find (\<lambda>p. p_id p = product_id item) prods of
        None \<Rightarrow> None
      | Some product \<Rightarrow>
          (let lineTotal = p_price product * quantity item in
           case orderItems prods rest (subtotal + lineTotal) of
             None \<Rightarrow> None
           | Some (sub, its) \<Rightarrow>
               Some (sub, \<lparr>oi_product_id = Some (p_id product), oi_product_name = p_name product,
                             oi_price = p_price product, oi_quantity = quantity item\<rparr> # its)))"

text \<open>Persistence.\<close>

definition new_order ::
  "ctx \<Rightarrow> ('x, 'y) order_request_scheme \<Rightarrow> money \<Rightarrow> money \<Rightarrow> money \<Rightarrow> order_row" where
  "new_order c body subtotal shipping total' =
     \<lparr>o_id = generated_id c, o_public_token = generated_public_token c,
      o_full_name = trim (full_name body), o_phone = phone body, o_wilaya = wilaya body,
      o_commune = trim_or_null (commune body), o_address = trim_or_null (address body),
      o_delivery_type = delivery_type body, o_note = trim_or_null (order_note body),
      o_subtotal = subtotal, o_shipping = shipping, o_total = total', o_status = ''new'',
      o_ip_address = clientIP c, o_user_agent = take 500 (userAgent c),
      o_event_id = event_id body, o_created_at = now c\<rparr>"

text \<open>
  \<^verbatim>\<open>optionsByProductId\<close>: a later cart line of the same product overwrites an
  earlier one.
\<close>

definition optionsByProductId ::
  "'x cart_item_scheme list \<Rightarrow> (string \<rightharpoonup> item_options option)" where
  "optionsByProductId cart = fold (\<lambda>ci m. m(product_id ci \<mapsto> options ci)) cart Map.empty"

definition options_of :: "(string \<rightharpoonup> item_options option) \<Rightarrow> string option \<Rightarrow> item_options option" where
  "options_of m pid =
     (case pid of None \<Rightarrow> None
      | Some k \<Rightarrow> (case m k of None \<Rightarrow> None | Some v \<Rightarrow> v))"

definition orderItemsWithOptions ::
  "string \<Rightarrow> 'x cart_item_scheme list \<Rightarrow> order_item list \<Rightarrow> order_item_row list" where
  "orderItemsWithOptions oid cart its =
     map (\<lambda>it. order_item.extend it
                  \<lparr>oi_order_id = oid,
                   oi_selected_size =
                     (case options_of (optionsByProductId cart) (oi_product_id it) of
                        None \<Rightarrow> None | Some opts \<Rightarrow> opt_size opts),
                   oi_selected_color =
                     (case options_of (optionsByProductId cart) (oi_product_id it) of
                        None \<Rightarrow> None | Some opts \<Rightarrow> opt_color opts),
                   oi_options = options_of (optionsByProductId cart) (oi_product_id it)\<rparr>) its"

text \<open>
  The write of \<^verbatim>\<open>rate_limits\<close> after the order is stored. The update filters on
  identifier, type and action only; the insert opens a window at \<open>now\<close>.
\<close>

definition rate_limit_record ::
  "int option \<Rightarrow> string \<Rightarrow> string \<Rightarrow> timestamp \<Rightarrow> rate_limit_row list \<Rightarrow> rate_limit_row list" where
  "rate_limit_record found ident ty t rls =
     (case found of
        Some n \<Rightarrow>
          map (\<lambda>r. if rl_identifier r = ident \<and> rl_identifier_type r = ty \<and>
                       rl_action r = ''create_order''
                    then r\<lparr>rl_count := n + 1\<rparr> else r) rls
      | None \<Rightarrow>
          rls @ [\<lparr>rl_identifier = ident, rl_identifier_type = ty, rl_action = ''create_order'',
                  rl_count = 1, rl_window_start = t\<rparr>])"

definition delete_cart :: "string option \<Rightarrow> cart_row list \<Rightarrow> cart_row list" where
  "delete_cart cid cs =
     (case cid of
        None \<Rightarrow> cs
      | Some k \<Rightarrow> if k = [] then cs else filter (\<lambda>cr. c_id cr \<noteq> k) cs)"

text \<open>
  From the insert of the order to the response. The insert fails on the error result or
  when the generated identifier is already a primary key.
\<close>

definition persist ::
  "ctx \<Rightarrow> db \<Rightarrow> ('x, 'y) order_request_scheme \<Rightarrow> int option \<Rightarrow> int option \<Rightarrow>
   order_item list \<Rightarrow> money \<Rightarrow> money \<Rightarrow> response \<times> db" where
  "persist c s body ipRateLimit phoneRateLimit its subtotal shipping =
     (let total' = subtotal + shipping in
      if orderError c \<or> generated_id c \<in> set (map o_id (orders s))
      then (errorResponse OrderCreationError 500, s)
      else
        let ord = new_order c body subtotal shipping total';
            s1 = s\<lparr>orders := orders s @ [ord]\<rparr>
        in if itemsError c
           then (errorResponse OrderCreationError 500,
                 s1\<lparr>orders := filter (\<lambda>r. o_id r \<noteq> o_id ord) (orders s1)\<rparr>)
           else
             let s2 = s1\<lparr>order_items :=
                          order_items s1 @ orderItemsWithOptions (o_id ord) (cart_items body) its\<rparr>;
                 s3 = s2\<lparr>order_status_history :=
                          order_status_history s2 @ [\<lparr>h_order_id = o_id ord, h_status = ''new''\<rparr>]\<rparr>;
                 s4 = s3\<lparr>rate_limits :=
                          rate_limit_record ipRateLimit (clientIP c) ''ip'' (now c) (rate_limits s3)\<rparr>;
                 s5 = s4\<lparr>rate_limits :=
                          rate_limit_record phoneRateLimit (phone body) ''phone'' (now c)
                            (rate_limits s4)\<rparr>;
                 s6 = s5\<lparr>carts := delete_cart (cart_id body) (carts s5)\<rparr>
             in (Success (o_id ord) (o_public_token ord) total', s6))"

text \<open>Pricing and the shipping rate, then persistence.\<close>

definition pricing ::
  "ctx \<Rightarrow> db \<Rightarrow> ('x, 'y) order_request_scheme \<Rightarrow> int option \<Rightarrow> int option \<Rightarrow> response \<times> db" where
  "pricing c s body ipRateLimit phoneRateLimit =
     (let productIds = map product_id (cart_items body);
          prods = filter (\<lambda>p. p_id p \<in> set productIds) (products s)
      in if productsError c \<or> length prods = 0
         then (errorResponse ProductsLoadError 500, s)
         else if length (filter (\<lambda>p. \<not> p_is_active p) prods) > 0
         then (errorResponse ProductsUnavailable 400, s)
         else
           (case orderItems prods (cart_items body) 0 of
              None \<Rightarrow> (errorResponse UnexpectedError 500, s)
            | Some (subtotal, its) \<Rightarrow>
                (case single (filter (\<lambda>r. sr_wilaya_code r = wilaya body \<and>
                                          sr_delivery_type r = delivery_type body)
                                (shipping_rates s)) of
                   None \<Rightarrow> (errorResponse DeliveryUnavailable 400, s)
                 | Some shippingRate \<Rightarrow>
                     if shippingError c \<or> \<not> sr_is_enabled shippingRate
                     then (errorResponse DeliveryUnavailable 400, s)
                     else persist c s body ipRateLimit phoneRateLimit its subtotal
                            (sr_price shippingRate))))"

text \<open>The whole handler.\<close>

definition create_order :: "ctx \<Rightarrow> db \<Rightarrow> ('x, 'y) order_request_scheme \<Rightarrow> response \<times> db" where
  "create_order c s body =
     (case validation s body of
        Some err \<Rightarrow> (err, s)
      | None \<Rightarrow>
          (case turnstile_success c of
             None \<Rightarrow> (errorResponse UnexpectedError 500, s)
           | Some passed \<Rightarrow>
               if \<not> passed then (errorResponse SecurityCheckFailed 400, s)
               else
                 let windowStart = now c - 60 * 60 * 1000;
                     ipRateLimit = rate_limit_select (rate_limits s) (clientIP c) ''ip'' windowStart
                 in if over_limit ipRateLimit 10
                    then (errorResponse RateLimitExceeded 429, s)
                    else
                      let phoneRateLimit =
                            rate_limit_select (rate_limits s) (phone body) ''phone'' windowStart
                      in if over_limit phoneRateLimit 3
                         then (errorResponse PhoneRateLimitExceeded 429, s)
                         else if duplicate_detection s body (now c)
                         then (errorResponse OrderAlreadyRegistered 400, s)
                         else pricing c s body ipRateLimit phoneRateLimit))"

section \<open>The handler of meta-server-events\<close>

subsection \<open>Events, queue rows and outbound calls\<close>

text \<open>\<^verbatim>\<open>interface TrackingEvent\<close>, its fields prefixed with \<open>te_\<close>.\<close>

record user_data =
  client_ip_address :: "string option"
  client_user_agent :: "string option"
  fbc :: "string option"
  fbp :: "string option"

record tracking_event =
  te_event_name :: string
  te_event_id :: string
  te_phone :: "string option"
  te_value :: "money option"
  te_currency :: "string option"
  te_order_id :: "string option"
  te_content_ids :: "string list option"
  te_user_data :: "user_data option"

record pending_tracking_event_row =
  pe_order_id :: "string option"
  pe_event_name :: string
  pe_event_id :: string
  pe_event_data :: tracking_event
  pe_trigger_status :: string

text \<open>One element of \<^verbatim>\<open>eventPayload.data\<close>, and the POST that carries it.\<close>

record meta_event =
  me_event_name :: string
  me_event_time :: int
  me_event_id :: string
  me_action_source :: string
  me_user_data :: "(string \<times> string) list"
  me_value :: "money option"
  me_currency :: string
  me_content_ids :: "string list option"
  me_content_type :: string

record meta_post =
  mp_pixel_id :: string
  mp_access_token :: string
  mp_data :: "meta_event list"

record tracking_db =
  settings :: "(string \<times> string option) list"
  pending_tracking_events :: "pending_tracking_event_row list"

text \<open>
  The environment variables, the clock and the answer of the conversions endpoint:
  \<^verbatim>\<open>metaResponse.ok\<close> (\<open>None\<close> when the call or the parsing of its answer throws) and
  \<^verbatim>\<open>metaResult.events_received\<close>.
\<close>

record tracking_ctx =
  META_PIXEL_ID :: "string option"
  META_ACCESS_TOKEN :: "string option"
  date_now :: timestamp
  meta_ok :: "bool option"
  events_received :: int

text \<open>
  What the handler does towards the outside, in order: the read of the
  \<^verbatim>\<open>purchase_event\<close> setting and the POST to the conversions endpoint.
\<close>

datatype effect = SettingsRead | MetaPost meta_post

datatype tracking_response =
    TrackingSkipped
  | EventQueued
  | EventsReceived int
  | MetaApiError
  | TrackingFailed

fun tracking_success :: "tracking_response \<Rightarrow> bool" where
  "tracking_success TrackingSkipped = True"
| "tracking_success EventQueued = True"
| "tracking_success (EventsReceived _) = True"
| "tracking_success MetaApiError = False"
| "tracking_success TrackingFailed = False"

subsection \<open>The handler\<close>

text \<open>A string that is present and not empty.\<close>

definition truthy :: "string option \<Rightarrow> bool" where
  "truthy x = (case x of None \<Rightarrow> False | Some v \<Rightarrow> v \<noteq> [])"

text \<open>\<^verbatim>\<open>settings?.value || "confirmed"\<close>\<close>

definition purchaseEventTrigger :: "tracking_db \<Rightarrow> string" where
  "purchaseEventTrigger s =
     (case single (filter (\<lambda>row. fst row = ''purchase_event'') (settings s)) of
        None \<Rightarrow> ''confirmed''
      | Some row \<Rightarrow>
          (case snd row of
             None \<Rightarrow> ''confirmed''
           | Some v \<Rightarrow> if v = [] then ''confirmed'' else v))"

text \<open>\<^verbatim>\<open>userData\<close>, its properties in the order in which they are set.\<close>

definition field_if_set :: "string \<Rightarrow> string option \<Rightarrow> (string \<times> string) list" where
  "field_if_set k x = (case x of None \<Rightarrow> [] | Some v \<Rightarrow> if v = [] then [] else [(k, v)])"

definition userData :: "(string \<Rightarrow> string) \<Rightarrow> tracking_event \<Rightarrow> (string \<times> string) list" where
  "userData hashSHA256 body =
     (case te_phone body of
        None \<Rightarrow> []
      | Some ph \<Rightarrow> if ph = [] then [] else [(''ph'', hashSHA256 (''213'' @ drop 1 ph))]) @
     (case te_user_data body of
        None \<Rightarrow> []
      | Some ud \<Rightarrow>
          field_if_set ''client_ip_address'' (client_ip_address ud) @
          field_if_set ''client_user_agent'' (client_user_agent ud) @
          field_if_set ''fbc'' (fbc ud) @
          field_if_set ''fbp'' (fbp ud))"

definition eventPayload ::
  "(string \<Rightarrow> string) \<Rightarrow> tracking_ctx \<Rightarrow> tracking_event \<Rightarrow> meta_event list" where
  "eventPayload hashSHA256 c body =
     [\<lparr>me_event_name = te_event_name body,
       me_event_time = date_now c div 1000,
       me_event_id = te_event_id body,
       me_action_source = ''website'',
       me_user_data = userData hashSHA256 body,
       me_value = te_value body,
       me_currency = (case te_currency body of
                        None \<Rightarrow> ''DZD''
                      | Some cur \<Rightarrow> if cur = [] then ''DZD'' else cur),
       me_content_ids = te_content_ids body,
       me_content_type = ''product''\<rparr>]"

text \<open>The POST, also when it throws, and the response that follows it.\<close>

definition send_to_meta ::
  "(string \<Rightarrow> string) \<Rightarrow> tracking_ctx \<Rightarrow> string \<Rightarrow> string \<Rightarrow> tracking_event \<Rightarrow>
   tracking_response \<times> effect list" where
  "send_to_meta hashSHA256 c metaPixelId metaAccessToken body =
     ((case meta_ok c of
         None \<Rightarrow> TrackingFailed
       | Some ok \<Rightarrow> if ok then EventsReceived (events_received c) else MetaApiError),
      [MetaPost \<lparr>mp_pixel_id = metaPixelId, mp_access_token = metaAccessToken,
                 mp_data = eventPayload hashSHA256 c body\<rparr>])"

text \<open>
  The whole handler: the response, the tables after the call, and the effects in order.
  The digest is a parameter.
\<close>

definition meta_server_events ::
  "(string \<Rightarrow> string) \<Rightarrow> tracking_ctx \<Rightarrow> tracking_db \<Rightarrow> tracking_event \<Rightarrow>
   tracking_response \<times> tracking_db \<times> effect list" where
  "meta_server_events hashSHA256 c s body =
     (case META_PIXEL_ID c of
        None \<Rightarrow> (TrackingSkipped, s, [])
      | Some metaPixelId \<Rightarrow>
          (case META_ACCESS_TOKEN c of
             None \<Rightarrow> (TrackingSkipped, s, [])
           | Some metaAccessToken \<Rightarrow>
               if metaPixelId = [] \<or> metaAccessToken = [] then (TrackingSkipped, s, [])
               else if te_event_name body = ''Purchase'' \<and> truthy (te_order_id body)
               then
                 (if purchaseEventTrigger s = ''delivered''
                  then (EventQueued,
                        s\<lparr>pending_tracking_events :=
                             pending_tracking_events s @
                             [\<lparr>pe_order_id = te_order_id body,
                               pe_event_name = te_event_name body,
                               pe_event_id = te_event_id body,
                               pe_event_data = body,
                               pe_trigger_status = ''delivered''\<rparr>]\<rparr>,
                        [SettingsRead])
                  else
                    (let (resp, sent) = send_to_meta hashSHA256 c metaPixelId metaAccessToken body
                     in (resp, s, SettingsRead # sent)))
               else
                 (let (resp, sent) = send_to_meta hashSHA256 c metaPixelId metaAccessToken body
                  in (resp, s, sent))))"

text \<open>The outbound calls among the effects.\<close>

definition outbound_calls :: "effect list \<Rightarrow> meta_post list" where
  "outbound_calls effs = concat (map (\<lambda>e. case e of MetaPost p \<Rightarrow> [p] | SettingsRead \<Rightarrow> []) effs)"

text \<open>
  \<^verbatim>\<open>trackingData\<close>, the event that create-order posts to this handler once an
  order is stored, without waiting for the answer; a request that is answered with an
  error posts nothing. (The second post, to the TikTok handler, carries the same fields and
  the order lines.)
\<close>

definition trackingData ::
  "('x, 'y) order_request_scheme \<Rightarrow> money \<Rightarrow> string \<Rightarrow> tracking_event" where
  "trackingData body total' oid =
     \<lparr>te_event_name = ''Purchase'', te_event_id = event_id body, te_phone = Some (phone body),
      te_value = Some total', te_currency = Some ''DZD'', te_order_id = Some oid,
      te_content_ids = Some (map product_id (cart_items body)), te_user_data = None\<rparr>"

definition tracking_posts ::
  "ctx \<Rightarrow> db \<Rightarrow> ('x, 'y) order_request_scheme \<Rightarrow> tracking_event list" where
  "tracking_posts c s body =
     (case fst (create_order c s body) of
        Success oid tok total' \<Rightarrow> [trackingData body total' oid]
      | ErrorResponse msg status \<Rightarrow> [])"

section \<open>Notions of the specification\<close>

subsection \<open>Server-side amounts\<close>



definition server_shipping :: "db \<Rightarrow> string \<Rightarrow> string \<Rightarrow> shipping_rate_row option" where
  "server_shipping s w dt =
     single (filter (\<lambda>r. sr_wilaya_code r = w \<and> sr_delivery_type r = dt) (shipping_rates s))"

definition product_missing :: "db \<Rightarrow> string \<Rightarrow> bool" where
  "product_missing s pid = (find (\<lambda>p. p_id p = pid) (products s) = None)"

definition product_inactive :: "db \<Rightarrow> string \<Rightarrow> bool" where
  "product_inactive s pid = list_ex (\<lambda>p. p_id p = pid \<and> \<not> p_is_active p) (products s)"




subsection \<open>Rate-limit windows\<close>

text \<open>One hour in milliseconds.\<close>

definition hour :: int where
  "hour = 60 * 60 * 1000"

text \<open>
  The counters of a key that are active at a time: those whose window started within the
  hour before it.
\<close>

definition active_counters :: "db \<Rightarrow> string \<Rightarrow> string \<Rightarrow> timestamp \<Rightarrow> rate_limit_row list" where
  "active_counters s ident ty t = rate_limit_rows (rate_limits s) ident ty (t - hour)"

text \<open>
  The key of a counter is counted by a request when it is the address of the request with
  type \<open>ip\<close> or the phone of the request with type \<open>phone\<close>; the thresholds of the two
  types.
\<close>

definition counted_by :: "ctx \<Rightarrow> ('x, 'y) order_request_scheme \<Rightarrow> string \<Rightarrow> string \<Rightarrow> bool" where
  "counted_by c body ident ty =
     ((ty = ''ip'' \<and> ident = clientIP c) \<or> (ty = ''phone'' \<and> ident = phone body))"

definition threshold :: "string \<Rightarrow> int" where
  "threshold ty = (if ty = ''ip'' then 10 else 3)"

text \<open>The counter that a key opened at a time, standing at a count, and no other since.\<close>

definition fresh_counter :: "string \<Rightarrow> string \<Rightarrow> timestamp \<Rightarrow> int \<Rightarrow> rate_limit_row" where
  "fresh_counter ident ty t n =
     \<lparr>rl_identifier = ident, rl_identifier_type = ty, rl_action = ''create_order'',
      rl_count = n, rl_window_start = t\<rparr>"

definition window_counter :: "db \<Rightarrow> string \<Rightarrow> string \<Rightarrow> timestamp \<Rightarrow> int \<Rightarrow> bool" where
  "window_counter s ident ty t1 n =
     (active_counters s ident ty t1 = [fresh_counter ident ty t1 n])"

text \<open>Requests handled one after the other, each on the tables the previous one left.\<close>

fun run :: "db \<Rightarrow> (ctx \<times> ('x, 'y) order_request_scheme) list \<Rightarrow> response list \<times> db" where
  "run s [] = ([], s)"
| "run s (step # rest) =
     (case create_order (fst step) s (snd step) of
        (r, s1) \<Rightarrow> (case run s1 rest of (rs, s2) \<Rightarrow> (r # rs, s2)))"

definition accepted :: "response \<Rightarrow> bool" where
  "accepted r = (\<not> is_error r)"

subsection \<open>The most recent order\<close>



section \<open>A shop for the examples\<close>

definition shop :: db where
  "shop =
     \<lparr>wilayas = [''16'', ''31''],
      products =
        [\<lparr>p_id = ''A'', p_name = ''ring'', p_price = 250000, p_is_active = True\<rparr>,
         \<lparr>p_id = ''B'', p_name = ''chain'', p_price = 120000, p_is_active = False\<rparr>],
      shipping_rates =
        [\<lparr>sr_wilaya_code = ''16'', sr_delivery_type = ''office'', sr_price = 40000,
          sr_is_enabled = True\<rparr>],
      orders = [], order_items = [], order_status_history = [], rate_limits = [],
      carts = [\<lparr>c_id = ''k1''\<rparr>]\<rparr>"

definition visit :: ctx where
  "visit =
     \<lparr>cf_connecting_ip = Some ''10.0.0.1'', x_forwarded_for = None, user_agent = Some ''ua'',
      now = 10000000, turnstile_success = Some True, productsError = False,
      shippingError = False, orderError = False, itemsError = False, generated_id = ''o1'',
      generated_public_token = ''t1''\<rparr>"

definition checkout :: "(unit, unit) order_request_scheme" where
  "checkout =
     \<lparr>full_name = ''Amina'', phone = ''0551234567'', wilaya = ''16'', commune = None,
      delivery_type = ''office'', address = None, order_note = None,
      cart_items = [\<lparr>product_id = ''A'', quantity = 2, options = None\<rparr>],
      turnstile_token = ''tok'', event_id = ''ev1'', cart_id = Some ''k1''\<rparr>"


text \<open>
  Ten checkouts from one address within the same second, each with its own phone, and
  three checkouts of one phone a minute apart, each with its own quantity.
\<close>

definition shopper :: "string \<Rightarrow> string \<Rightarrow> ctx \<times> (unit, unit) order_request_scheme" where
  "shopper oid ph = (visit\<lparr>generated_id := oid\<rparr>, checkout\<lparr>phone := ph\<rparr>)"

definition nine_more :: "(ctx \<times> (unit, unit) order_request_scheme) list" where
  "nine_more =
     [shopper ''o2'' ''0550000002'', shopper ''o3'' ''0550000003'', shopper ''o4'' ''0550000004'',
      shopper ''o5'' ''0550000005'', shopper ''o6'' ''0550000006'', shopper ''o7'' ''0550000007'',
      shopper ''o8'' ''0550000008'', shopper ''o9'' ''0550000009'', shopper ''o10'' ''0550000010'']"

definition returning :: "string \<Rightarrow> string \<Rightarrow> timestamp \<Rightarrow> int \<Rightarrow> ctx \<times> (unit, unit) order_request_scheme" where
  "returning oid addr t q =
     (visit\<lparr>generated_id := oid, cf_connecting_ip := Some addr, now := t\<rparr>,
      checkout\<lparr>cart_items := [\<lparr>product_id = ''A'', quantity = q, options = None\<rparr>]\<rparr>)"

definition two_more :: "(ctx \<times> (unit, unit) order_request_scheme) list" where
  "two_more = [returning ''o2'' ''10.0.0.2'' 10060000 3, returning ''o3'' ''10.0.0.3'' 10120000 5]"

text \<open>
  The tables after two accepted orders of one phone a minute apart, of quantities 2 and 3,
  and a third checkout of quantity 3 one minute later.
\<close>

definition two_orders :: db where
  "two_orders =
     snd (run shop [returning ''o1'' ''10.0.0.1'' 10000000 2, returning ''o2'' ''10.0.0.2'' 10060000 3])"

definition repeat_of_latest :: "ctx \<times> (unit, unit) order_request_scheme" where
  "repeat_of_latest = returning ''o3'' ''10.0.0.3'' 10120000 3"

text \<open>
  The tables after two accepted orders of one address and one phone two hours apart, and a
  third checkout ten minutes after the second.
\<close>

definition two_windows :: db where
  "two_windows =
     snd (run shop [returning ''o1'' ''10.0.0.1'' 10000000 2, returning ''o2'' ''10.0.0.1'' 17200000 2])"

definition third_checkout :: "ctx \<times> (unit, unit) order_request_scheme" where
  "third_checkout = returning ''o3'' ''10.0.0.1'' 17800000 3"

section \<open>Notions and examples for the tracking handler\<close>


text \<open>Both credentials are present and not empty.\<close>

definition configured :: "tracking_ctx \<Rightarrow> bool" where
  "configured c = (truthy (META_PIXEL_ID c) \<and> truthy (META_ACCESS_TOKEN c))"

text \<open>
  The Purchase event of the first example order, a deployment with credentials and one
  without the access token, and the settings table with each value of the setting. In the
  examples the digest is replaced by the reversal of the text.
\<close>

definition purchase :: tracking_event where
  "purchase = trackingData checkout 540000 ''o1''"

definition with_credentials :: tracking_ctx where
  "with_credentials =
     \<lparr>META_PIXEL_ID = Some ''px'', META_ACCESS_TOKEN = Some ''tk'', date_now = 10000000,
      meta_ok = Some True, events_received = 1\<rparr>"

definition without_token :: tracking_ctx where
  "without_token = with_credentials\<lparr>META_ACCESS_TOKEN := None\<rparr>"

definition on_delivery :: tracking_db where
  "on_delivery = \<lparr>settings = [(''purchase_event'', Some ''delivered'')], pending_tracking_events = []\<rparr>"



section \<open>Further examples for the rate limits and the duplicates\<close>

text \<open>
  A checkout of an address and phone at a time. One order at 10000000 opens the window of
  the address; ten more follow, the first forty minutes later and nine after sixty-one
  minutes, and an eleventh after sixty-two.
\<close>

definition at_time :: "string \<Rightarrow> string \<Rightarrow> timestamp \<Rightarrow> ctx \<times> (unit, unit) order_request_scheme" where
  "at_time oid ph t = (visit\<lparr>generated_id := oid, now := t\<rparr>, checkout\<lparr>phone := ph\<rparr>)"

definition after_first :: db where
  "after_first = snd (run shop [at_time ''o0'' ''0550000000'' 10000000])"

definition ten_across :: "(ctx \<times> (unit, unit) order_request_scheme) list" where
  "ten_across =
     [at_time ''o1'' ''0550000001'' 12400000, at_time ''o2'' ''0550000002'' 13660000,
      at_time ''o3'' ''0550000003'' 13660000, at_time ''o4'' ''0550000004'' 13660000,
      at_time ''o5'' ''0550000005'' 13660000, at_time ''o6'' ''0550000006'' 13660000,
      at_time ''o7'' ''0550000007'' 13660000, at_time ''o8'' ''0550000008'' 13660000,
      at_time ''o9'' ''0550000009'' 13660000, at_time ''o10'' ''0550000010'' 13660000]"

definition eleventh :: "ctx \<times> (unit, unit) order_request_scheme" where
  "eleventh = at_time ''o11'' ''0550000011'' 13720000"

text \<open>The same for one phone ordering from changing addresses.\<close>

definition after_first_of_phone :: db where
  "after_first_of_phone = snd (run shop [returning ''o0'' ''10.0.0.9'' 10000000 2])"

definition three_across :: "(ctx \<times> (unit, unit) order_request_scheme) list" where
  "three_across =
     [returning ''o1'' ''10.0.0.1'' 12400000 3, returning ''o2'' ''10.0.0.2'' 13660000 5,
      returning ''o3'' ''10.0.0.3'' 13690000 7]"

definition fourth :: "ctx \<times> (unit, unit) order_request_scheme" where
  "fourth = returning ''o4'' ''10.0.0.4'' 13720000 9"




section \<open>Basic facts\<close>

declare errorResponse_def [simp]

lemma single_Some_iff: "(single rows = Some r) = (rows = [r])"
  by (cases rows; cases "tl rows") (auto simp: single_def)

lemma filter_other_ids:
  "k \<notin> set (map o_id rows) \<Longrightarrow> filter (\<lambda>r. o_id r \<noteq> k) rows = rows"
  by (induction rows) auto

subsection \<open>A request that is answered with an error leaves the tables as they were\<close>

lemma persist_error_keeps_db:
  "is_error (fst (persist c s body ip ph its sub ship)) \<Longrightarrow>
   snd (persist c s body ip ph its sub ship) = s"
  by (auto simp: persist_def Let_def new_order_def filter_other_ids split: if_splits)

lemma pricing_error_keeps_db:
  "is_error (fst (pricing c s body ip ph)) \<Longrightarrow> snd (pricing c s body ip ph) = s"
  unfolding pricing_def Let_def
  by (auto simp: persist_error_keeps_db split: if_splits option.splits prod.splits)

lemma create_order_error_keeps_db:
  "is_error (fst (create_order c s body)) \<Longrightarrow> snd (create_order c s body) = s"
  unfolding create_order_def Let_def
  by (auto simp: pricing_error_keeps_db split: if_splits option.splits)

subsection \<open>The phone pattern\<close>

lemma phone_atoms:
  "phoneRegex =
     [Lit CHR ''0'', OneOf ''567'', Digit, Digit, Digit, Digit, Digit, Digit, Digit, Digit]"
  by (simp add: phoneRegex_def numeral_eq_Suc)

lemma atom_match_567: "atom_match (OneOf ''567'') c = (c \<in> {CHR ''5'', CHR ''6'', CHR ''7''})"
  by simp

lemma all_less_10:
  "(\<forall>i<10::nat. P i) = (P 0 \<and> P 1 \<and> P 2 \<and> P 3 \<and> P 4 \<and> P 5 \<and> P 6 \<and> P 7 \<and> P 8 \<and> P 9)"
proof -
  have "{..<10::nat} = {0,1,2,3,4,5,6,7,8,9}" by auto
  then have "(\<forall>i\<in>{..<10::nat}. P i) = (\<forall>i\<in>{0,1,2,3,4,5,6,7,8,9}. P i)" by simp
  moreover have "(\<forall>i<10::nat. P i) = (\<forall>i\<in>{..<10::nat}. P i)" by auto
  ultimately show ?thesis by simp
qed

lemma upt_2_10: "{2..<10::nat} = {2,3,4,5,6,7,8,9}"
  by auto

lemma phoneRegex_national_mobile: "regex_test phoneRegex s = national_mobile s"
proof (cases "length s = 10")
  case False
  then show ?thesis
    by (auto simp: regex_test_def phone_atoms national_mobile_def dest: list_all2_lengthD)
next
  case True
  have "length phoneRegex = 10" by (simp add: phone_atoms)
  with True have A: "regex_test phoneRegex s = (\<forall>i<10. atom_match (phoneRegex ! i) (s ! i))"
    by (simp only: regex_test_def list_all2_conv_all_nth simp_thms)
  show ?thesis
    unfolding A all_less_10 national_mobile_def upt_2_10 using True
    by (simp add: phone_atoms atom_match_567 del: atom_match.simps(2))
qed

lemma validation_status: "validation s body = Some r \<Longrightarrow> is_error r \<and> http_status r = 400"
  by (auto simp: validation_def split: if_splits)

lemma bad_phone_rejected:
  assumes "\<not> regex_test phoneRegex (phone body)"
  shows "create_order c s body =
           (ErrorResponse (if trim (full_name body) = [] then NameRequired else PhoneInvalid) 400, s)"
  using assms by (simp add: create_order_def validation_def)

lemma validation_not_phone:
  "regex_test phoneRegex (phone body) \<Longrightarrow> validation s body \<noteq> Some (ErrorResponse PhoneInvalid 400)"
  by (auto simp: validation_def)

lemma pricing_not_phone: "fst (pricing c s body ip ph) \<noteq> ErrorResponse PhoneInvalid 400"
  unfolding pricing_def persist_def Let_def
  by (auto split: if_splits option.splits prod.splits)

lemma good_phone_not_rejected_for_it:
  assumes "regex_test phoneRegex (phone body)"
  shows "fst (create_order c s body) \<noteq> ErrorResponse PhoneInvalid 400"
  using validation_not_phone[OF assms, of s]
  unfolding create_order_def Let_def
  by (auto simp: pricing_not_phone split: if_splits option.splits)

subsection \<open>What an accepted request went through\<close>

lemma create_order_Success:
  assumes "create_order c s body = (Success oid tok t, s')"
  shows "validation s body = None \<and> turnstile_success c = Some True \<and>
         \<not> over_limit (rate_limit_select (rate_limits s) (clientIP c) ''ip'' (now c - hour)) 10 \<and>
         \<not> over_limit (rate_limit_select (rate_limits s) (phone body) ''phone'' (now c - hour)) 3 \<and>
         \<not> duplicate_detection s body (now c) \<and>
         pricing c s body (rate_limit_select (rate_limits s) (clientIP c) ''ip'' (now c - hour))
           (rate_limit_select (rate_limits s) (phone body) ''phone'' (now c - hour)) =
           (Success oid tok t, s')"
  using assms unfolding create_order_def Let_def hour_def
  by (auto split: option.splits if_splits dest: validation_status)

lemma pricing_Success:
  assumes "pricing c s body ip ph = (Success oid tok t, s')"
  shows "\<not> productsError c \<and> \<not> shippingError c \<and>
         (\<forall>p \<in> set (products s). p_id p \<in> set (map product_id (cart_items body)) \<longrightarrow> p_is_active p) \<and>
         (\<exists>sub its rate.
            orderItems (filter (\<lambda>p. p_id p \<in> set (map product_id (cart_items body))) (products s))
              (cart_items body) 0 = Some (sub, its) \<and>
            server_shipping s (wilaya body) (delivery_type body) = Some rate \<and>
            sr_is_enabled rate \<and>
            persist c s body ip ph its sub (sr_price rate) = (Success oid tok t, s'))"
  using assms unfolding pricing_def Let_def server_shipping_def
  by (auto split: option.splits if_splits prod.splits simp: filter_empty_conv)

lemma persist_Success:
  assumes "persist c s body ip ph its sub ship = (Success oid tok t, s')"
  shows "\<not> orderError c \<and> \<not> itemsError c \<and> generated_id c \<notin> set (map o_id (orders s)) \<and>
         oid = generated_id c \<and> tok = generated_public_token c \<and> t = sub + ship \<and>
         orders s' = orders s @ [new_order c body sub ship (sub + ship)] \<and>
         order_items s' = order_items s @ orderItemsWithOptions oid (cart_items body) its \<and>
         rate_limits s' =
           rate_limit_record ph (phone body) ''phone'' (now c)
             (rate_limit_record ip (clientIP c) ''ip'' (now c) (rate_limits s)) \<and>
         carts s' = delete_cart (cart_id body) (carts s) \<and>
         products s' = products s \<and> shipping_rates s' = shipping_rates s \<and> wilayas s' = wilayas s"
  using assms unfolding persist_def Let_def
  by (auto split: if_splits simp: new_order_def)

lemma clientIP_itemsError [simp]: "clientIP (c\<lparr>itemsError := b\<rparr>) = clientIP c"
  by (simp add: clientIP_def forwarded_or_unknown_def split: option.splits)

lemma persist_items_failure:
  assumes "\<not> orderError c" "generated_id c \<notin> set (map o_id (orders s))" "itemsError c"
  shows "persist c s body ip ph its sub ship = (ErrorResponse OrderCreationError 500, s)"
  using assms by (simp add: persist_def Let_def new_order_def filter_other_ids)

lemma pricing_itemsError_irrelevant:
  assumes "pricing c s body ip ph = (Success oid tok t, s')"
  shows "pricing (c\<lparr>itemsError := True\<rparr>) s body ip ph = (ErrorResponse OrderCreationError 500, s)"
proof -
  from pricing_Success[OF assms] obtain sub its rate where
    a: "\<not> productsError c" "\<not> shippingError c"
       "\<forall>p \<in> set (products s). p_id p \<in> set (map product_id (cart_items body)) \<longrightarrow> p_is_active p"
       "orderItems (filter (\<lambda>p. p_id p \<in> set (map product_id (cart_items body))) (products s))
              (cart_items body) 0 = Some (sub, its)"
       "server_shipping s (wilaya body) (delivery_type body) = Some rate"
       "sr_is_enabled rate"
       "persist c s body ip ph its sub (sr_price rate) = (Success oid tok t, s')"
    by blast
  from persist_Success[OF a(7)] have b: "\<not> orderError c" "generated_id c \<notin> set (map o_id (orders s))"
    by simp_all
  have ne: "filter (\<lambda>p. p_id p \<in> set (map product_id (cart_items body))) (products s) \<noteq> []"
    using assms unfolding pricing_def Let_def by (auto split: if_splits)
  have "persist (c\<lparr>itemsError := True\<rparr>) s body ip ph its sub (sr_price rate) =
          (ErrorResponse OrderCreationError 500, s)"
    using b by (intro persist_items_failure) simp_all
  then show ?thesis
    using a ne unfolding pricing_def Let_def server_shipping_def
    by (auto simp: filter_empty_conv)
qed

subsection \<open>Pricing\<close>

lemma find_filter_ids:
  "k \<in> S \<Longrightarrow> find (\<lambda>p. p_id p = k) (filter (\<lambda>p. p_id p \<in> S) ps) = find (\<lambda>p. p_id p = k) ps"
  by (induction ps) auto

lemma orderItems_found:
  "orderItems prods cart acc = Some r \<Longrightarrow> item \<in> set cart \<Longrightarrow>
   find (\<lambda>p. p_id p = product_id item) prods \<noteq> None"
  by (induction cart arbitrary: acc r) (auto simp: Let_def split: option.splits)



















lemma create_order_products_ok:
  assumes "create_order c s body = (Success oid tok t, s')" "item \<in> set (cart_items body)"
  shows "\<not> product_missing s (product_id item) \<and> \<not> product_inactive s (product_id item)"
proof -
  from create_order_Success[OF assms(1)] obtain ip ph where
    p: "pricing c s body ip ph = (Success oid tok t, s')" by blast
  from pricing_Success[OF p] obtain sub its where
    act: "\<forall>p \<in> set (products s). p_id p \<in> set (map product_id (cart_items body)) \<longrightarrow> p_is_active p" and
    oi: "orderItems (filter (\<lambda>p. p_id p \<in> set (map product_id (cart_items body))) (products s))
           (cart_items body) 0 = Some (sub, its)"
    by blast
  from orderItems_found[OF oi assms(2)] assms(2)
  have "\<not> product_missing s (product_id item)"
    by (simp add: product_missing_def find_filter_ids)
  moreover from act assms(2) have "\<not> product_inactive s (product_id item)"
    by (auto simp: product_inactive_def list_ex_iff)
  ultimately show ?thesis by simp
qed

subsection \<open>Rate-limit counters\<close>

lemma rate_limit_rows_later:
  "w \<le> w' \<Longrightarrow>
   rate_limit_rows rls ident ty w' =
     filter (\<lambda>r. w' \<le> rl_window_start r) (rate_limit_rows rls ident ty w)"
  by (induction rls) (auto simp: rate_limit_rows_def)

lemma rate_limit_rows_record_other:
  "rate_limit_rows (rate_limit_record found ident' ty' t rls) ident ty w =
     rate_limit_rows rls ident ty w" if "ident \<noteq> ident' \<or> ty \<noteq> ty'"
proof (cases found)
  case None
  then show ?thesis
    using that by (auto simp: rate_limit_rows_def rate_limit_record_def)
next
  case (Some n)
  show ?thesis
    unfolding Some using that
    by (induction rls) (auto simp: rate_limit_rows_def rate_limit_record_def)
qed

lemma rate_limit_rows_record_update:
  "rate_limit_rows (rate_limit_record (Some n) ident ty t rls) ident ty w =
     map (\<lambda>r. r\<lparr>rl_count := n + 1\<rparr>) (rate_limit_rows rls ident ty w)"
  by (induction rls) (auto simp: rate_limit_rows_def rate_limit_record_def)

lemma rate_limit_rows_record_insert:
  "rate_limit_rows (rate_limit_record None ident ty t rls) ident ty w =
     rate_limit_rows rls ident ty w @
       (if w \<le> t then [\<lparr>rl_identifier = ident, rl_identifier_type = ty,
                          rl_action = ''create_order'', rl_count = 1, rl_window_start = t\<rparr>]
        else [])"
  by (auto simp: rate_limit_rows_def rate_limit_record_def)

lemma success_rate_limits:
  assumes "create_order c s body = (Success oid tok t, s')"
  shows "rate_limits s' =
           rate_limit_record (rate_limit_select (rate_limits s) (phone body) ''phone'' (now c - hour))
             (phone body) ''phone'' (now c)
             (rate_limit_record (rate_limit_select (rate_limits s) (clientIP c) ''ip'' (now c - hour))
                (clientIP c) ''ip'' (now c) (rate_limits s))"
    and "\<not> over_limit (rate_limit_select (rate_limits s) (clientIP c) ''ip'' (now c - hour)) 10"
    and "\<not> over_limit (rate_limit_select (rate_limits s) (phone body) ''phone'' (now c - hour)) 3"
    and "length (orders s') = Suc (length (orders s))"
proof -
  let ?ip = "rate_limit_select (rate_limits s) (clientIP c) ''ip'' (now c - hour)"
  let ?ph = "rate_limit_select (rate_limits s) (phone body) ''phone'' (now c - hour)"
  from create_order_Success[OF assms] have
    p: "pricing c s body ?ip ?ph = (Success oid tok t, s')"
    and l: "\<not> over_limit ?ip 10" "\<not> over_limit ?ph 3"
    by simp_all
  from pricing_Success[OF p] obtain sub its and rate :: shipping_rate_row where
    "persist c s body ?ip ?ph its sub (sr_price rate) = (Success oid tok t, s')"
    by blast
  from persist_Success[OF this] l
  show "rate_limits s' = rate_limit_record ?ph (phone body) ''phone'' (now c)
             (rate_limit_record ?ip (clientIP c) ''ip'' (now c) (rate_limits s))"
    and "\<not> over_limit ?ip 10" and "\<not> over_limit ?ph 3"
    and "length (orders s') = Suc (length (orders s))"
    by simp_all
qed

lemma counted_success_rows:
  assumes "create_order c s body = (Success oid tok t, s')" and "counted_by c body ident ty"
  shows "rate_limit_rows (rate_limits s') ident ty w =
           (case rate_limit_select (rate_limits s) ident ty (now c - hour) of
              Some n \<Rightarrow> map (\<lambda>r. r\<lparr>rl_count := n + 1\<rparr>) (rate_limit_rows (rate_limits s) ident ty w)
            | None \<Rightarrow> rate_limit_rows (rate_limits s) ident ty w @
                        (if w \<le> now c then [fresh_counter ident ty (now c) 1] else []))"
    and "\<not> over_limit (rate_limit_select (rate_limits s) ident ty (now c - hour)) (threshold ty)"
proof -
  note r = success_rate_limits[OF assms(1)]
  from assms(2) consider "ty = ''ip''" "ident = clientIP c" | "ty = ''phone''" "ident = phone body"
    by (auto simp: counted_by_def)
  then show "rate_limit_rows (rate_limits s') ident ty w =
           (case rate_limit_select (rate_limits s) ident ty (now c - hour) of
              Some n \<Rightarrow> map (\<lambda>r. r\<lparr>rl_count := n + 1\<rparr>) (rate_limit_rows (rate_limits s) ident ty w)
            | None \<Rightarrow> rate_limit_rows (rate_limits s) ident ty w @
                        (if w \<le> now c then [fresh_counter ident ty (now c) 1] else []))"
  proof cases
    case 1
    then show ?thesis
      unfolding r(1)
      by (simp add: rate_limit_rows_record_other rate_limit_rows_record_update
          rate_limit_rows_record_insert fresh_counter_def split: option.splits)
  next
    case 2
    then show ?thesis
      unfolding r(1)
      by (simp add: rate_limit_rows_record_other rate_limit_rows_record_update
          rate_limit_rows_record_insert fresh_counter_def split: option.splits)
  qed
  from assms(2) r(2,3)
  show "\<not> over_limit (rate_limit_select (rate_limits s) ident ty (now c - hour)) (threshold ty)"
    by (auto simp: counted_by_def threshold_def)
qed

lemma window_select:
  assumes "window_counter s ident ty t1 n" "t1 \<le> t" "t \<le> t1 + hour"
  shows "active_counters s ident ty t = [fresh_counter ident ty t1 n]"
    and "rate_limit_select (rate_limits s) ident ty (t - hour) = Some n"
proof -
  have "t1 - hour \<le> t - hour" using assms(2) by simp
  from rate_limit_rows_later[OF this, of "rate_limits s" ident ty] assms(1,3)
  show a: "active_counters s ident ty t = [fresh_counter ident ty t1 n]"
    by (simp add: window_counter_def active_counters_def fresh_counter_def)
  then show "rate_limit_select (rate_limits s) ident ty (t - hour) = Some n"
    by (simp add: rate_limit_select_def active_counters_def single_def fresh_counter_def)
qed

lemma window_opens:
  assumes "create_order c s body = (Success oid tok t, s')" and "counted_by c body ident ty"
    and "active_counters s ident ty (now c) = []"
  shows "window_counter s' ident ty (now c) 1"
  using counted_success_rows(1)[OF assms(1,2), of "now c - hour"] assms(3)
  by (simp add: window_counter_def active_counters_def rate_limit_select_def single_def hour_def)

lemma window_counts:
  assumes "create_order c s body = (Success oid tok t, s')" and "counted_by c body ident ty"
    and "window_counter s ident ty t1 n" and "t1 \<le> now c" "now c \<le> t1 + hour"
  shows "window_counter s' ident ty t1 (n + 1)" and "n < threshold ty"
proof -
  note sel = window_select(2)[OF assms(3-5)]
  from counted_success_rows(1)[OF assms(1,2), of "t1 - hour"] sel assms(3)
  show "window_counter s' ident ty t1 (n + 1)"
    by (simp add: window_counter_def active_counters_def fresh_counter_def)
  from counted_success_rows(2)[OF assms(1,2)] sel
  show "n < threshold ty"
    by (simp add: over_limit_def)
qed

lemma window_full_rejects:
  assumes "window_counter s ident ty t1 n" and "threshold ty \<le> n"
    and "counted_by c body ident ty" and "t1 \<le> now c" "now c \<le> t1 + hour"
    and "validation s body = None" "turnstile_success c = Some True"
  shows "http_status (fst (create_order c s body)) = 429 \<and> snd (create_order c s body) = s"
proof -
  note sel = window_select(2)[OF assms(1,4,5)]
  from assms(3) consider "ty = ''ip''" "ident = clientIP c" | "ty = ''phone''" "ident = phone body"
    by (auto simp: counted_by_def)
  then show ?thesis
  proof cases
    case 1
    with sel assms(2,6,7) show ?thesis
      by (simp add: create_order_def Let_def over_limit_def threshold_def hour_def)
  next
    case 2
    with sel assms(2,6,7) show ?thesis
      by (simp add: create_order_def Let_def over_limit_def threshold_def hour_def)
  qed
qed

lemma accepted_Success: "accepted r \<Longrightarrow> \<exists>oid tok t. r = Success oid tok t"
  by (cases r) (simp_all add: accepted_def)

lemma run_counts:
  assumes "window_counter s ident ty t1 n"
    and "\<forall>step \<in> set steps. counted_by (fst step) (snd step) ident ty \<and>
           t1 \<le> now (fst step) \<and> now (fst step) \<le> t1 + hour"
    and "list_all accepted (fst (run s steps))"
  shows "window_counter (snd (run s steps)) ident ty t1 (n + int (length steps)) \<and>
         length (orders (snd (run s steps))) = length (orders s) + length steps"
  using assms
proof (induction steps arbitrary: s n)
  case Nil
  then show ?case by simp
next
  case (Cons step rest)
  obtain r s1 where r: "create_order (fst step) s (snd step) = (r, s1)"
    by (cases "create_order (fst step) s (snd step)")
  obtain rs s2 where rs: "run s1 rest = (rs, s2)"
    by (cases "run s1 rest")
  from Cons.prems(3) r rs have acc: "accepted r" "list_all accepted (fst (run s1 rest))"
    by simp_all
  from accepted_Success[OF acc(1)] r obtain oid tok t where
    succ: "create_order (fst step) s (snd step) = (Success oid tok t, s1)"
    by auto
  from Cons.prems(2) have k: "counted_by (fst step) (snd step) ident ty"
    "t1 \<le> now (fst step)" "now (fst step) \<le> t1 + hour"
    by simp_all
  from window_counts(1)[OF succ k(1) Cons.prems(1) k(2,3)]
  have w1: "window_counter s1 ident ty t1 (n + 1)" .
  from Cons.prems(2) have rest: "\<forall>step \<in> set rest. counted_by (fst step) (snd step) ident ty \<and>
           t1 \<le> now (fst step) \<and> now (fst step) \<le> t1 + hour"
    by simp
  from Cons.IH[OF w1 rest acc(2)] rs have
    a: "window_counter s2 ident ty t1 (n + 1 + int (length rest))"
       "length (orders s2) = length (orders s1) + length rest"
    by simp_all
  have "n + 1 + int (length rest) = n + int (length (step # rest))"
    by simp
  with a(1) have "window_counter s2 ident ty t1 (n + int (length (step # rest)))"
    by simp
  with a(2) success_rate_limits(4)[OF succ] r rs
  show ?case by simp
qed

lemma active_single_select:
  "active_counters s ident ty t = [r] \<Longrightarrow>
   rate_limit_select (rate_limits s) ident ty (t - hour) = Some (rl_count r)"
  by (simp add: active_counters_def rate_limit_select_def single_def)

lemma ip_limit_rejects:
  assumes "validation s body = None" "turnstile_success c = Some True"
    and "active_counters s (clientIP c) ''ip'' (now c) = [r]" "10 \<le> rl_count r"
  shows "create_order c s body = (ErrorResponse RateLimitExceeded 429, s)"
  using assms(1,2,4) active_single_select[OF assms(3)]
  by (simp add: create_order_def Let_def over_limit_def hour_def)

lemma phone_limit_rejects:
  assumes "validation s body = None" "turnstile_success c = Some True"
    and "active_counters s (phone body) ''phone'' (now c) = [r]" "3 \<le> rl_count r"
  shows "create_order c s body =
           (ErrorResponse
              (if over_limit (rate_limit_select (rate_limits s) (clientIP c) ''ip'' (now c - hour)) 10
               then RateLimitExceeded else PhoneRateLimitExceeded) 429, s)"
  using assms(1,2,4) active_single_select[OF assms(3)]
  by (simp add: create_order_def Let_def over_limit_def hour_def)

lemma limited_is_error:
  assumes "(active_counters s (clientIP c) ''ip'' (now c) = [r] \<and> 10 \<le> rl_count r) \<or>
           (active_counters s (phone body) ''phone'' (now c) = [r] \<and> 3 \<le> rl_count r)"
  shows "is_error (fst (create_order c s body))"
proof (cases "fst (create_order c s body)")
  case (Success oid tok t)
  then have "create_order c s body = (Success oid tok t, snd (create_order c s body))"
    by (metis prod.collapse)
  from create_order_Success[OF this] assms show ?thesis
    by (auto simp: over_limit_def dest: active_single_select)
next
  case (ErrorResponse m st)
  then show ?thesis by simp
qed

lemma burst_rejected:
  assumes start: "active_counters s ident ty (now (fst first)) = []"
    and acc: "list_all accepted (fst (run s (first # rest)))"
    and first: "counted_by (fst first) (snd first) ident ty"
    and rest: "\<forall>step \<in> set rest. counted_by (fst step) (snd step) ident ty \<and>
                 now (fst first) \<le> now (fst step) \<and> now (fst step) \<le> now (fst first) + hour"
    and full: "threshold ty \<le> 1 + int (length rest)"
    and nxt: "counted_by c body ident ty" "now (fst first) \<le> now c" "now c \<le> now (fst first) + hour"
    and gates: "validation (snd (run s (first # rest))) body = None" "turnstile_success c = Some True"
  shows "http_status (fst (create_order c (snd (run s (first # rest))) body)) = 429 \<and>
         snd (create_order c (snd (run s (first # rest))) body) = snd (run s (first # rest)) \<and>
         length (orders (snd (run s (first # rest)))) = length (orders s) + Suc (length rest) \<and>
         active_counters (snd (run s (first # rest))) ident ty (now c) =
           [fresh_counter ident ty (now (fst first)) (1 + int (length rest))]"
proof -
  obtain r s1 where r: "create_order (fst first) s (snd first) = (r, s1)"
    by (cases "create_order (fst first) s (snd first)")
  obtain rs s2 where rs: "run s1 rest = (rs, s2)"
    by (cases "run s1 rest")
  from r rs have fin: "snd (run s (first # rest)) = s2"
    by simp
  from acc r rs have a: "accepted r" "list_all accepted (fst (run s1 rest))"
    by simp_all
  from accepted_Success[OF a(1)] r obtain oid tok t where
    succ: "create_order (fst first) s (snd first) = (Success oid tok t, s1)"
    by auto
  from window_opens[OF succ first start]
  have w1: "window_counter s1 ident ty (now (fst first)) 1" .
  from run_counts[OF w1 rest a(2)] rs have
    w2: "window_counter s2 ident ty (now (fst first)) (1 + int (length rest))" and
    len: "length (orders s2) = length (orders s1) + length rest"
    by simp_all
  from window_full_rejects[OF w2 full nxt] gates fin
  have "http_status (fst (create_order c s2 body)) = 429 \<and> snd (create_order c s2 body) = s2"
    by simp
  with len success_rate_limits(4)[OF succ] fin window_select(1)[OF w2 nxt(2,3)] show ?thesis
    by simp
qed

subsection \<open>Duplicate detection\<close>





subsection \<open>The tracking handler\<close>


lemma not_configured_skips:
  assumes "\<not> configured c"
  shows "meta_server_events h c s body = (TrackingSkipped, s, [])"
  using assms
  by (auto simp: meta_server_events_def configured_def truthy_def split: option.splits)




lemma queued_only_for_order_purchase:
  assumes "fst (meta_server_events h c s body) = EventQueued \<or>
           pending_tracking_events (fst (snd (meta_server_events h c s body))) \<noteq>
             pending_tracking_events s"
  shows "te_event_name body = ''Purchase'' \<and> truthy (te_order_id body) \<and> configured c \<and>
         purchaseEventTrigger s = ''delivered''"
  using assms
  by (auto simp: meta_server_events_def send_to_meta_def configured_def truthy_def
      split: option.splits if_splits)

lemma posted_event_is_purchase:
  "ev \<in> set (tracking_posts c s body) \<Longrightarrow>
   te_event_name ev = ''Purchase'' \<and> (\<exists>oid. te_order_id ev = Some oid)"
  by (auto simp: tracking_posts_def trackingData_def split: response.splits)

section \<open>The claims\<close>

subsection \<open>C1: the total comes from the stored prices\<close>



subsection \<open>C2: a rejected request writes nothing\<close>

text \<open>
  C2. Whenever create-order answers a request with an error, whatever the stage that
  rejected it, the tables after the request are the tables before it: no order, no order
  item, no rate-limit counter added or changed, no cart deleted.
\<close>

theorem C2_rejected_request_writes_nothing:
  assumes "is_error (fst (create_order c s body))"
  shows "orders (snd (create_order c s body)) = orders s \<and>
         order_items (snd (create_order c s body)) = order_items s \<and>
         rate_limits (snd (create_order c s body)) = rate_limits s \<and>
         carts (snd (create_order c s body)) = carts s \<and>
         snd (create_order c s body) = s"
  using create_order_error_keeps_db[OF assms] by simp

theorem C2_rejected_request_writes_nothing_witness:
  "fst (create_order (visit\<lparr>itemsError := True\<rparr>) shop checkout) =
     errorResponse OrderCreationError 500 \<and>
   orders (snd (create_order (visit\<lparr>itemsError := True\<rparr>) shop checkout)) = orders shop \<and>
   order_items (snd (create_order (visit\<lparr>itemsError := True\<rparr>) shop checkout)) = order_items shop \<and>
   rate_limits (snd (create_order (visit\<lparr>itemsError := True\<rparr>) shop checkout)) = rate_limits shop \<and>
   carts (snd (create_order (visit\<lparr>itemsError := True\<rparr>) shop checkout)) = carts shop \<and>
   fst (create_order (fst repeat_of_latest) two_orders (checkout\<lparr>cart_id := Some ''k1''\<rparr>)) =
     errorResponse OrderAlreadyRegistered 400 \<and>
   snd (create_order (fst repeat_of_latest) two_orders (checkout\<lparr>cart_id := Some ''k1''\<rparr>)) =
     two_orders"
proof -
  have h: "fst (create_order (visit\<lparr>itemsError := True\<rparr>) shop checkout) =
             errorResponse OrderCreationError 500"
    by code_simp
  have d: "fst (create_order (fst repeat_of_latest) two_orders (checkout\<lparr>cart_id := Some ''k1''\<rparr>)) =
             errorResponse OrderAlreadyRegistered 400"
    by code_simp
  from h have "is_error (fst (create_order (visit\<lparr>itemsError := True\<rparr>) shop checkout))"
    by simp
  note a = C2_rejected_request_writes_nothing[OF this]
  from d have "is_error (fst (create_order (fst repeat_of_latest) two_orders
                               (checkout\<lparr>cart_id := Some ''k1''\<rparr>)))"
    by simp
  note b = C2_rejected_request_writes_nothing[OF this]
  from a b h d show ?thesis by simp
qed

subsection \<open>C3: the rate limits\<close>

text \<open>
  C3 as stated promises that after ten accepted orders of one address within an hour the
  eleventh is rejected, and the fourth of a phone after three. The counters are fixed
  windows: an order opens the window of the address at 10000000; ten more orders of the
  address follow within twenty-one minutes, one in that window and nine in the window that
  the next one opens, all accepted; the eleventh, a minute later, finds the counter at 9
  and is accepted. Three orders of one phone across two windows are followed by an accepted
  fourth in the same way. The claim also promises status 429 to every request while a
  counter is full: a request with a blank name then gets the 400 of validation.
\<close>

theorem C3_window_rollover_counterexample:
  "list_all accepted (fst (run after_first ten_across)) \<and> length ten_across = 10 \<and>
   list_all (\<lambda>step. clientIP (fst step) = ''10.0.0.1'' \<and>
                     12400000 \<le> now (fst step) \<and> now (fst step) \<le> 12400000 + hour)
     (eleventh # ten_across) \<and>
   fst (create_order (fst eleventh) (snd (run after_first ten_across)) (snd eleventh)) =
     Success ''o11'' ''t1'' 540000 \<and>
   list_all accepted (fst (run after_first_of_phone three_across)) \<and> length three_across = 3 \<and>
   list_all (\<lambda>step. phone (snd step) = ''0551234567'' \<and>
                     12400000 \<le> now (fst step) \<and> now (fst step) \<le> 12400000 + hour)
     (fourth # three_across) \<and>
   fst (create_order (fst fourth) (snd (run after_first_of_phone three_across)) (snd fourth)) =
     Success ''o4'' ''t1'' 2290000 \<and>
   active_counters (snd (run shop (shopper ''o1'' ''0550000001'' # nine_more))) ''10.0.0.1'' ''ip''
       (now (fst (shopper ''o11'' ''0550000011''))) =
     [fresh_counter ''10.0.0.1'' ''ip'' 10000000 10] \<and>
   fst (create_order (fst (shopper ''o11'' ''0550000011''))
          (snd (run shop (shopper ''o1'' ''0550000001'' # nine_more)))
          ((snd (shopper ''o11'' ''0550000011''))\<lparr>full_name := '' ''\<rparr>)) =
     errorResponse NameRequired 400"
  by code_simp

text \<open>
  C3, amended. Take a request that passed validation and the bot check. When the active
  counter of its address (window started within the last hour) stands at 10 or more, the
  request is answered 429 with the address message and the tables are unchanged; when the
  active counter of its phone stands at 3 or more, it is answered 429 (with the address
  message if the address is over its limit too, with the phone message otherwise) and the
  tables are unchanged. Duplicate detection and pricing play no part. Whatever the earlier
  stages say, a request that meets such a counter is answered with an error and no order
  is stored.

  Ten requests from one address, all accepted, the first arriving when the address has no
  active counter and the others within the hour after it: an eleventh request from that
  address within that hour is answered 429 and the orders are the ten more. Likewise the
  fourth request of a phone after three.
\<close>

theorem C3_rate_limit_checked_first:
  "(validation s body = None \<and> turnstile_success c = Some True \<and>
    active_counters s (clientIP c) ''ip'' (now c) = [r] \<and> 10 \<le> rl_count r \<longrightarrow>
      create_order c s body = (errorResponse RateLimitExceeded 429, s)) \<and>
   (validation s body = None \<and> turnstile_success c = Some True \<and>
    active_counters s (phone body) ''phone'' (now c) = [r] \<and> 3 \<le> rl_count r \<longrightarrow>
      create_order c s body =
        (errorResponse
           (if over_limit (rate_limit_select (rate_limits s) (clientIP c) ''ip'' (now c - hour)) 10
            then RateLimitExceeded else PhoneRateLimitExceeded) 429, s)) \<and>
   ((active_counters s (clientIP c) ''ip'' (now c) = [r] \<and> 10 \<le> rl_count r) \<or>
    (active_counters s (phone body) ''phone'' (now c) = [r] \<and> 3 \<le> rl_count r) \<longrightarrow>
      is_error (fst (create_order c s body)) \<and> orders (snd (create_order c s body)) = orders s) \<and>
   (active_counters s (clientIP (fst first)) ''ip'' (now (fst first)) = [] \<and>
    list_all accepted (fst (run s (first # rest))) \<and> length rest = 9 \<and>
    (\<forall>step \<in> set rest. clientIP (fst step) = clientIP (fst first) \<and>
        now (fst first) \<le> now (fst step) \<and> now (fst step) \<le> now (fst first) + hour) \<and>
    clientIP c = clientIP (fst first) \<and>
    now (fst first) \<le> now c \<and> now c \<le> now (fst first) + hour \<and>
    validation (snd (run s (first # rest))) body = None \<and> turnstile_success c = Some True \<longrightarrow>
      create_order c (snd (run s (first # rest))) body =
        (errorResponse RateLimitExceeded 429, snd (run s (first # rest))) \<and>
      length (orders (snd (run s (first # rest)))) = length (orders s) + 10) \<and>
   (active_counters s (phone (snd first)) ''phone'' (now (fst first)) = [] \<and>
    list_all accepted (fst (run s (first # rest))) \<and> length rest = 2 \<and>
    (\<forall>step \<in> set rest. phone (snd step) = phone (snd first) \<and>
        now (fst first) \<le> now (fst step) \<and> now (fst step) \<le> now (fst first) + hour) \<and>
    phone body = phone (snd first) \<and>
    now (fst first) \<le> now c \<and> now c \<le> now (fst first) + hour \<and>
    validation (snd (run s (first # rest))) body = None \<and> turnstile_success c = Some True \<longrightarrow>
      http_status (fst (create_order c (snd (run s (first # rest))) body)) = 429 \<and>
      snd (create_order c (snd (run s (first # rest))) body) = snd (run s (first # rest)) \<and>
      length (orders (snd (run s (first # rest)))) = length (orders s) + 3)"
proof (intro conjI impI)
  assume "validation s body = None \<and> turnstile_success c = Some True \<and>
    active_counters s (clientIP c) ''ip'' (now c) = [r] \<and> 10 \<le> rl_count r"
  then show "create_order c s body = (errorResponse RateLimitExceeded 429, s)"
    using ip_limit_rejects[of s body c r] by simp
next
  assume "validation s body = None \<and> turnstile_success c = Some True \<and>
    active_counters s (phone body) ''phone'' (now c) = [r] \<and> 3 \<le> rl_count r"
  then show "create_order c s body =
        (errorResponse
           (if over_limit (rate_limit_select (rate_limits s) (clientIP c) ''ip'' (now c - hour)) 10
            then RateLimitExceeded else PhoneRateLimitExceeded) 429, s)"
    using phone_limit_rejects[of s body c r] by simp
next
  assume a: "(active_counters s (clientIP c) ''ip'' (now c) = [r] \<and> 10 \<le> rl_count r) \<or>
    (active_counters s (phone body) ''phone'' (now c) = [r] \<and> 3 \<le> rl_count r)"
  from limited_is_error[OF a] show e: "is_error (fst (create_order c s body))" .
  from create_order_error_keeps_db[OF e]
  show "orders (snd (create_order c s body)) = orders s" by simp
next
  assume a: "active_counters s (clientIP (fst first)) ''ip'' (now (fst first)) = [] \<and>
    list_all accepted (fst (run s (first # rest))) \<and> length rest = 9 \<and>
    (\<forall>step \<in> set rest. clientIP (fst step) = clientIP (fst first) \<and>
        now (fst first) \<le> now (fst step) \<and> now (fst step) \<le> now (fst first) + hour) \<and>
    clientIP c = clientIP (fst first) \<and>
    now (fst first) \<le> now c \<and> now c \<le> now (fst first) + hour \<and>
    validation (snd (run s (first # rest))) body = None \<and> turnstile_success c = Some True"
  let ?fin = "snd (run s (first # rest))"
  have "active_counters ?fin (clientIP (fst first)) ''ip'' (now c) =
          [fresh_counter (clientIP (fst first)) ''ip'' (now (fst first)) (1 + int (length rest))] \<and>
        length (orders ?fin) = length (orders s) + Suc (length rest)"
    using a burst_rejected[of s "clientIP (fst first)" "''ip''" first rest c body]
    by (simp add: counted_by_def threshold_def del: run.simps)
  with a have act: "active_counters ?fin (clientIP c) ''ip'' (now c) =
                      [fresh_counter (clientIP c) ''ip'' (now (fst first)) 10]"
    and len: "length (orders ?fin) = length (orders s) + 10"
    by (simp_all del: run.simps)
  have "10 \<le> rl_count (fresh_counter (clientIP c) ''ip'' (now (fst first)) 10)"
    by (simp add: fresh_counter_def)
  from ip_limit_rejects[of ?fin body c, OF _ _ act this] a
  show "create_order c ?fin body = (errorResponse RateLimitExceeded 429, ?fin)"
    by (simp del: run.simps)
  from len show "length (orders ?fin) = length (orders s) + 10" .
next
  assume a: "active_counters s (phone (snd first)) ''phone'' (now (fst first)) = [] \<and>
    list_all accepted (fst (run s (first # rest))) \<and> length rest = 2 \<and>
    (\<forall>step \<in> set rest. phone (snd step) = phone (snd first) \<and>
        now (fst first) \<le> now (fst step) \<and> now (fst step) \<le> now (fst first) + hour) \<and>
    phone body = phone (snd first) \<and>
    now (fst first) \<le> now c \<and> now c \<le> now (fst first) + hour \<and>
    validation (snd (run s (first # rest))) body = None \<and> turnstile_success c = Some True"
  let ?fin = "snd (run s (first # rest))"
  have b: "http_status (fst (create_order c ?fin body)) = 429 \<and>
        snd (create_order c ?fin body) = ?fin \<and>
        length (orders ?fin) = length (orders s) + Suc (length rest)"
    using a burst_rejected[of s "phone (snd first)" "''phone''" first rest c body]
    by (simp add: counted_by_def threshold_def del: run.simps)
  from b show "http_status (fst (create_order c ?fin body)) = 429" by (simp del: run.simps)
  from b show "snd (create_order c ?fin body) = ?fin" by (simp del: run.simps)
  from a b show "length (orders ?fin) = length (orders s) + 3" by (simp del: run.simps)
qed

theorem C3_rate_limit_checked_first_witness:
  "list_all accepted (fst (run shop (shopper ''o1'' ''0550000001'' # nine_more))) \<and>
   create_order (fst (shopper ''o11'' ''0550000011''))
       (snd (run shop (shopper ''o1'' ''0550000001'' # nine_more)))
       (snd (shopper ''o11'' ''0550000011'')) =
     (errorResponse RateLimitExceeded 429,
      snd (run shop (shopper ''o1'' ''0550000001'' # nine_more))) \<and>
   length (orders (snd (run shop (shopper ''o1'' ''0550000001'' # nine_more)))) = 10 \<and>
   list_all accepted (fst (run shop (returning ''o1'' ''10.0.0.1'' 10000000 2 # two_more))) \<and>
   http_status (fst (create_order (fst (returning ''o4'' ''10.0.0.4'' 10180000 7))
       (snd (run shop (returning ''o1'' ''10.0.0.1'' 10000000 2 # two_more)))
       (snd (returning ''o4'' ''10.0.0.4'' 10180000 7)))) = 429 \<and>
   length (orders (snd (run shop (returning ''o1'' ''10.0.0.1'' 10000000 2 # two_more)))) = 3"
proof -
  let ?f = "shopper ''o1'' ''0550000001''"
  let ?n = "shopper ''o11'' ''0550000011''"
  have ip: "active_counters shop (clientIP (fst ?f)) ''ip'' (now (fst ?f)) = [] \<and>
    list_all accepted (fst (run shop (?f # nine_more))) \<and> length nine_more = 9 \<and>
    (\<forall>step \<in> set nine_more. clientIP (fst step) = clientIP (fst ?f) \<and>
        now (fst ?f) \<le> now (fst step) \<and> now (fst step) \<le> now (fst ?f) + hour) \<and>
    clientIP (fst ?n) = clientIP (fst ?f) \<and>
    now (fst ?f) \<le> now (fst ?n) \<and> now (fst ?n) \<le> now (fst ?f) + hour \<and>
    validation (snd (run shop (?f # nine_more))) (snd ?n) = None \<and>
    turnstile_success (fst ?n) = Some True"
    by code_simp
  let ?g = "returning ''o1'' ''10.0.0.1'' 10000000 2"
  let ?m = "returning ''o4'' ''10.0.0.4'' 10180000 7"
  have ph: "active_counters shop (phone (snd ?g)) ''phone'' (now (fst ?g)) = [] \<and>
    list_all accepted (fst (run shop (?g # two_more))) \<and> length two_more = 2 \<and>
    (\<forall>step \<in> set two_more. phone (snd step) = phone (snd ?g) \<and>
        now (fst ?g) \<le> now (fst step) \<and> now (fst step) \<le> now (fst ?g) + hour) \<and>
    phone (snd ?m) = phone (snd ?g) \<and>
    now (fst ?g) \<le> now (fst ?m) \<and> now (fst ?m) \<le> now (fst ?g) + hour \<and>
    validation (snd (run shop (?g # two_more))) (snd ?m) = None \<and>
    turnstile_success (fst ?m) = Some True"
    by code_simp
  have empty: "length (orders shop) = 0"
    by (simp add: shop_def)
  from C3_rate_limit_checked_first[of shop "snd ?n" "fst ?n" _ ?f nine_more] ip empty
  have "create_order (fst ?n) (snd (run shop (?f # nine_more))) (snd ?n) =
          (errorResponse RateLimitExceeded 429, snd (run shop (?f # nine_more))) \<and>
        length (orders (snd (run shop (?f # nine_more)))) = 10"
    by (simp del: run.simps)
  moreover
  from C3_rate_limit_checked_first[of shop "snd ?m" "fst ?m" _ ?g two_more] ph empty
  have "http_status (fst (create_order (fst ?m) (snd (run shop (?g # two_more))) (snd ?m))) = 429 \<and>
        length (orders (snd (run shop (?g # two_more)))) = 3"
    by (simp del: run.simps)
  ultimately show ?thesis using ip ph by (simp del: run.simps)
qed

subsection \<open>C4: duplicate detection\<close>




subsection \<open>C5: the write of the rate-limit counters\<close>

text \<open>
  C5 states that the write after an accepted order adds one to the active counter of the
  address and of the phone, or opens a counter at 1, and modifies no counter of another
  key or of an expired window. The read of a counter selects on the start of the window;
  the update does not, and rewrites every counter of the key. At a failing input: an
  address and a phone order twice, two hours apart, so that each has a counter of the
  first window and a counter of the second, both at 1. Ten minutes after the second order
  the first window is long over; the third order is accepted and sets all four counters
  to 2, the two of the expired window included.
\<close>

theorem C5_expired_counter_rewritten:
  "rate_limits two_windows =
     [fresh_counter ''10.0.0.1'' ''ip'' 10000000 1, fresh_counter ''0551234567'' ''phone'' 10000000 1,
      fresh_counter ''10.0.0.1'' ''ip'' 17200000 1, fresh_counter ''0551234567'' ''phone'' 17200000 1] \<and>
   now (fst third_checkout) = 17800000 \<and>
   active_counters two_windows ''10.0.0.1'' ''ip'' 17800000 =
     [fresh_counter ''10.0.0.1'' ''ip'' 17200000 1] \<and>
   fst (create_order (fst third_checkout) two_windows (snd third_checkout)) =
     Success ''o3'' ''t1'' 790000 \<and>
   rate_limits (snd (create_order (fst third_checkout) two_windows (snd third_checkout))) =
     [fresh_counter ''10.0.0.1'' ''ip'' 10000000 2, fresh_counter ''0551234567'' ''phone'' 10000000 2,
      fresh_counter ''10.0.0.1'' ''ip'' 17200000 2, fresh_counter ''0551234567'' ''phone'' 17200000 2]"
  by code_simp

subsection \<open>C6: the order row is taken back when its items cannot be stored\<close>

text \<open>
  C6. Take a request that create-order accepts when the insert of the items succeeds, so
  that its order row is inserted. When the insert of the items fails instead, the handler
  deletes that row and answers with status 500: the tables are as they were before the
  request, and no order carries the identifier of the row that had been inserted.
\<close>

theorem C6_items_failure_rolls_back:
  assumes "create_order (c\<lparr>itemsError := False\<rparr>) s body = (Success oid tok t, s')"
  shows "create_order (c\<lparr>itemsError := True\<rparr>) s body =
           (errorResponse OrderCreationError 500, s) \<and>
         oid \<in> set (map o_id (orders s')) \<and>
         oid \<notin> set (map o_id (orders (snd (create_order (c\<lparr>itemsError := True\<rparr>) s body))))"
proof -
  let ?c = "c\<lparr>itemsError := False\<rparr>"
  let ?ip = "rate_limit_select (rate_limits s) (clientIP ?c) ''ip'' (now ?c - hour)"
  let ?ph = "rate_limit_select (rate_limits s) (phone body) ''phone'' (now ?c - hour)"
  from create_order_Success[OF assms] have
    g: "validation s body = None" "turnstile_success ?c = Some True"
       "\<not> over_limit ?ip 10" "\<not> over_limit ?ph 3" "\<not> duplicate_detection s body (now ?c)" and
    p: "pricing ?c s body ?ip ?ph = (Success oid tok t, s')"
    by simp_all
  from pricing_itemsError_irrelevant[OF p]
  have "pricing (c\<lparr>itemsError := True\<rparr>) s body ?ip ?ph = (ErrorResponse OrderCreationError 500, s)"
    by simp
  with g have r: "create_order (c\<lparr>itemsError := True\<rparr>) s body =
                    (ErrorResponse OrderCreationError 500, s)"
    by (simp add: create_order_def Let_def hour_def)
  from pricing_Success[OF p] obtain sub its and rate :: shipping_rate_row where
    "persist ?c s body ?ip ?ph its sub (sr_price rate) = (Success oid tok t, s')"
    by blast
  from persist_Success[OF this] have
    "oid \<in> set (map o_id (orders s'))" "oid \<notin> set (map o_id (orders s))"
    by (simp_all add: new_order_def)
  with r show ?thesis by simp
qed

theorem C6_items_failure_rolls_back_witness:
  "fst (create_order (visit\<lparr>itemsError := False\<rparr>) shop checkout) = Success ''o1'' ''t1'' 540000 \<and>
   create_order (visit\<lparr>itemsError := True\<rparr>) shop checkout =
     (errorResponse OrderCreationError 500, shop) \<and>
   ''o1'' \<notin> set (map o_id (orders (snd (create_order (visit\<lparr>itemsError := True\<rparr>) shop checkout))))"
proof -
  have ok: "fst (create_order (visit\<lparr>itemsError := False\<rparr>) shop checkout) =
              Success ''o1'' ''t1'' 540000"
    by code_simp
  then have "create_order (visit\<lparr>itemsError := False\<rparr>) shop checkout =
               (Success ''o1'' ''t1'' 540000,
                snd (create_order (visit\<lparr>itemsError := False\<rparr>) shop checkout))"
    by (metis prod.collapse)
  from C6_items_failure_rolls_back[OF this] ok show ?thesis by (simp add: shop_def)
qed

subsection \<open>C7: a missing or inactive product rejects the whole order\<close>

text \<open>
  C7. When some product of the cart is not in the catalog, or is in it and inactive,
  create-order answers with an error and the orders and the order items are as they were.
\<close>

theorem C7_missing_or_inactive_product_rejects:
  assumes "\<exists>item \<in> set (cart_items body).
             product_missing s (product_id item) \<or> product_inactive s (product_id item)"
  shows "is_error (fst (create_order c s body)) \<and>
         orders (snd (create_order c s body)) = orders s \<and>
         order_items (snd (create_order c s body)) = order_items s"
proof -
  have e: "is_error (fst (create_order c s body))"
  proof (cases "fst (create_order c s body)")
    case (Success oid tok t)
    then have "create_order c s body = (Success oid tok t, snd (create_order c s body))"
      by (metis prod.collapse)
    from create_order_products_ok[OF this] assms show ?thesis by blast
  next
    case (ErrorResponse m st)
    then show ?thesis by simp
  qed
  with create_order_error_keeps_db[OF e] show ?thesis by simp
qed

theorem C7_missing_or_inactive_product_rejects_witness:
  "product_inactive shop ''B'' \<and> product_missing shop ''Z'' \<and>
   is_error (fst (create_order visit shop
      (checkout\<lparr>cart_items := [\<lparr>product_id = ''A'', quantity = 1, options = None\<rparr>,
                                \<lparr>product_id = ''B'', quantity = 1, options = None\<rparr>]\<rparr>))) \<and>
   orders (snd (create_order visit shop
      (checkout\<lparr>cart_items := [\<lparr>product_id = ''A'', quantity = 1, options = None\<rparr>,
                                \<lparr>product_id = ''B'', quantity = 1, options = None\<rparr>]\<rparr>))) = orders shop \<and>
   is_error (fst (create_order visit shop
      (checkout\<lparr>cart_items := [\<lparr>product_id = ''A'', quantity = 1, options = None\<rparr>,
                                \<lparr>product_id = ''Z'', quantity = 1, options = None\<rparr>]\<rparr>)))"
proof -
  let ?b = "checkout\<lparr>cart_items := [\<lparr>product_id = ''A'', quantity = 1, options = None\<rparr>,
                                     \<lparr>product_id = ''B'', quantity = 1, options = None\<rparr>]\<rparr>"
  let ?z = "checkout\<lparr>cart_items := [\<lparr>product_id = ''A'', quantity = 1, options = None\<rparr>,
                                     \<lparr>product_id = ''Z'', quantity = 1, options = None\<rparr>]\<rparr>"
  have b: "product_inactive shop ''B''" by code_simp
  have z: "product_missing shop ''Z''" by code_simp
  from b have hb: "\<exists>item \<in> set (cart_items ?b).
                     product_missing shop (product_id item) \<or> product_inactive shop (product_id item)"
    by simp
  from z have hz: "\<exists>item \<in> set (cart_items ?z).
                     product_missing shop (product_id item) \<or> product_inactive shop (product_id item)"
    by simp
  from C7_missing_or_inactive_product_rejects[OF hb, of visit]
       C7_missing_or_inactive_product_rejects[OF hz, of visit] b z
  show ?thesis by simp
qed

subsection \<open>C8: a Purchase event is sent at once or queued\<close>




subsection \<open>C9: the phone check\<close>

text \<open>
  C9. The test of \<^verbatim>\<open>phoneRegex\<close> holds of a phone exactly when the phone has ten
  characters, a leading 0, a second digit among 5, 6, 7 and eight further digits. A phone
  that fails it is answered with status 400 and nothing is stored (with the phone message
  once the name is present); a phone that passes it is never answered with the phone
  message. \<open>0551234567\<close> passes; \<open>0441234567\<close>, \<open>055123456\<close> and \<open>05512345678\<close> fail.
\<close>

theorem C9_phone_pattern:
  "(regex_test phoneRegex (phone body) \<longleftrightarrow> national_mobile (phone body)) \<and>
   (\<not> national_mobile (phone body) \<longrightarrow>
      is_error (fst (create_order c s body)) \<and> http_status (fst (create_order c s body)) = 400 \<and>
      snd (create_order c s body) = s \<and>
      (trim (full_name body) \<noteq> [] \<longrightarrow>
         fst (create_order c s body) = errorResponse PhoneInvalid 400)) \<and>
   (national_mobile (phone body) \<longrightarrow>
      fst (create_order c s body) \<noteq> errorResponse PhoneInvalid 400) \<and>
   national_mobile ''0551234567'' \<and> \<not> national_mobile ''0441234567'' \<and>
   \<not> national_mobile ''055123456'' \<and> \<not> national_mobile ''05512345678''"
proof -
  have ex: "national_mobile ''0551234567'' \<and> \<not> national_mobile ''0441234567'' \<and>
            \<not> national_mobile ''055123456'' \<and> \<not> national_mobile ''05512345678''"
    by (simp add: national_mobile_def upt_2_10 is_digit_def)
  have bad: "is_error (fst (create_order c s body)) \<and>
             http_status (fst (create_order c s body)) = 400 \<and>
             snd (create_order c s body) = s \<and>
             (trim (full_name body) \<noteq> [] \<longrightarrow>
                fst (create_order c s body) = errorResponse PhoneInvalid 400)"
    if "\<not> national_mobile (phone body)"
  proof -
    from that have "\<not> regex_test phoneRegex (phone body)"
      by (simp add: phoneRegex_national_mobile)
    from bad_phone_rejected[OF this, of c s] show ?thesis by simp
  qed
  have good: "fst (create_order c s body) \<noteq> errorResponse PhoneInvalid 400"
    if "national_mobile (phone body)"
    using that good_phone_not_rejected_for_it[of body c s]
    by (simp add: phoneRegex_national_mobile)
  from ex bad good show ?thesis
    by (simp add: phoneRegex_national_mobile)
qed

theorem C9_phone_pattern_witness:
  "\<not> national_mobile (phone (checkout\<lparr>phone := ''0441234567''\<rparr>)) \<and>
   create_order visit shop (checkout\<lparr>phone := ''0441234567''\<rparr>) =
     (errorResponse PhoneInvalid 400, shop) \<and>
   national_mobile (phone checkout) \<and>
   fst (create_order visit shop checkout) \<noteq> errorResponse PhoneInvalid 400"
proof -
  have bad: "\<not> national_mobile (phone (checkout\<lparr>phone := ''0441234567''\<rparr>))"
    by (simp add: national_mobile_def)
  have name: "trim (full_name (checkout\<lparr>phone := ''0441234567''\<rparr>)) \<noteq> []"
    by code_simp
  have good: "national_mobile (phone checkout)"
    by (simp add: checkout_def national_mobile_def upt_2_10 is_digit_def)
  from C9_phone_pattern[of "checkout\<lparr>phone := ''0441234567''\<rparr>" visit shop] bad name
  have "create_order visit shop (checkout\<lparr>phone := ''0441234567''\<rparr>) =
          (errorResponse PhoneInvalid 400, shop)"
    by (metis prod.collapse)
  moreover from C9_phone_pattern[of checkout visit shop] good
  have "fst (create_order visit shop checkout) \<noteq> errorResponse PhoneInvalid 400"
    by blast
  ultimately show ?thesis using bad good by simp
qed

subsection \<open>C10: without credentials nothing is read, queued or sent\<close>

text \<open>
  C10. When the pixel identifier or the access token is missing or empty, the handler
  answers with the success response for skipped tracking, and does nothing else: the
  setting is not read, the queue is unchanged and no call goes out, whatever the event and
  whatever the setting, a Purchase event with an order under \<open>delivered\<close> included. A row
  is queued, or the queued response given, only for an event named Purchase with an order
  identifier, with both credentials configured and the setting at \<open>delivered\<close>; and the
  setting is read only for such an event under configured credentials.
\<close>

theorem C10_credentials_checked_first:
  "(\<not> configured c \<longrightarrow>
      meta_server_events h c s body = (TrackingSkipped, s, []) \<and>
      tracking_success (fst (meta_server_events h c s body)) \<and>
      SettingsRead \<notin> set (snd (snd (meta_server_events h c s body))) \<and>
      pending_tracking_events (fst (snd (meta_server_events h c s body))) = pending_tracking_events s \<and>
      outbound_calls (snd (snd (meta_server_events h c s body))) = []) \<and>
   (fst (meta_server_events h c s body) = EventQueued \<or>
    pending_tracking_events (fst (snd (meta_server_events h c s body))) \<noteq> pending_tracking_events s \<longrightarrow>
      te_event_name body = ''Purchase'' \<and> truthy (te_order_id body) \<and> configured c \<and>
      purchaseEventTrigger s = ''delivered'') \<and>
   (SettingsRead \<in> set (snd (snd (meta_server_events h c s body))) \<longrightarrow>
      te_event_name body = ''Purchase'' \<and> truthy (te_order_id body) \<and> configured c)"
proof (intro conjI impI)
  assume n: "\<not> configured c"
  from not_configured_skips[OF n, of h s body]
  show "meta_server_events h c s body = (TrackingSkipped, s, [])"
    and "tracking_success (fst (meta_server_events h c s body))"
    and "SettingsRead \<notin> set (snd (snd (meta_server_events h c s body)))"
    and "pending_tracking_events (fst (snd (meta_server_events h c s body))) = pending_tracking_events s"
    and "outbound_calls (snd (snd (meta_server_events h c s body))) = []"
    by (simp_all add: outbound_calls_def)
next
  assume a: "fst (meta_server_events h c s body) = EventQueued \<or>
    pending_tracking_events (fst (snd (meta_server_events h c s body))) \<noteq> pending_tracking_events s"
  from queued_only_for_order_purchase[OF a]
  show "te_event_name body = ''Purchase''" and "truthy (te_order_id body)" and "configured c"
    and "purchaseEventTrigger s = ''delivered''"
    by simp_all
next
  assume a: "SettingsRead \<in> set (snd (snd (meta_server_events h c s body)))"
  then have "te_event_name body = ''Purchase'' \<and> truthy (te_order_id body) \<and> configured c"
    by (auto simp: meta_server_events_def send_to_meta_def configured_def truthy_def
        split: option.splits if_splits)
  then show "te_event_name body = ''Purchase''" and "truthy (te_order_id body)" and "configured c"
    by simp_all
qed

theorem C10_credentials_checked_first_witness:
  "\<not> configured without_token \<and> te_event_name purchase = ''Purchase'' \<and>
   truthy (te_order_id purchase) \<and> purchaseEventTrigger on_delivery = ''delivered'' \<and>
   meta_server_events rev without_token on_delivery purchase = (TrackingSkipped, on_delivery, []) \<and>
   fst (meta_server_events rev with_credentials on_delivery purchase) = EventQueued \<and>
   configured with_credentials"
proof -
  have n: "\<not> configured without_token" by code_simp
  have p: "te_event_name purchase = ''Purchase'' \<and> truthy (te_order_id purchase) \<and>
           purchaseEventTrigger on_delivery = ''delivered''"
    by code_simp
  have q: "fst (meta_server_events rev with_credentials on_delivery purchase) = EventQueued"
    by code_simp
  from C10_credentials_checked_first[of without_token rev on_delivery purchase] n
  have "meta_server_events rev without_token on_delivery purchase = (TrackingSkipped, on_delivery, [])"
    by blast
  moreover
  from C10_credentials_checked_first[of with_credentials rev on_delivery purchase] q
  have "configured with_credentials"
    by blast
  ultimately show ?thesis using n p q by simp
qed

end
